theory Spec2Isabelle
  imports Main
begin

section \<open>Data model\<close>

text \<open>
  The job board keeps two collections, jobs and users (the two mongoose schemas of
  \<^verbatim>\<open>src/index.js\<close>). Times are milliseconds since the epoch, as \<^verbatim>\<open>Date.now()\<close>
  gives them.
\<close>

type_synonym timestamp = int

type_synonym json = string

record job =
  job_id :: nat
  title :: string
  description :: string
  link :: string
  postedAt :: timestamp

record user =
  user_id :: nat
  name :: string
  email :: string
  department :: string
  password :: string
  is_verified :: bool

text \<open>
  Everything a handler can catch: a reference to an identifier the module never binds,
  a rejected store operation, a rejected \<^verbatim>\<open>axios\<close> promise.
\<close>

datatype js_error = ReferenceError string | StoreError | AxiosError

text \<open>
  The store: the documents of both collections in store-native order, whether the
  connection is usable, and the source of fresh document identifiers.
\<close>

record store =
  jobs :: "job list"
  users :: "user list"
  connected :: bool
  next_id :: nat

datatype job_filter = NoFilter | PostedAtGte timestamp

datatype job_sort = Unsorted | PostedAtDesc

record axios_request =
  url :: string
  hdr_Authorization :: string
  hdr_apikey :: "string option"

text \<open>What a handler does to the outside world, in order.\<close>

datatype effect =
    AxiosGet axios_request
  | JobFind job_filter job_sort
  | JobSave job
  | UserFindOne string

datatype payload =
    Message string
  | MessageError string js_error
  | MessageToken string string
  | MessageUser string user
  | MessageJob string job
  | JobList "job list"

record response =
  status :: nat
  body :: payload

type_synonym outcome = "response \<times> store \<times> effect list"

text \<open>The identity service as the process sees it: no reply at all; a status and a body
  that \<^verbatim>\<open>axios\<close> takes as the answer; or a 3xx reply with a \<^verbatim>\<open>Location\<close> that
  \<^verbatim>\<open>axios\<close> follows, together with what the place it points to answers to the request
  as \<^verbatim>\<open>axios\<close> forwards it.\<close>

datatype http_reply = NoReply | Reply nat json | Redirect http_reply

record env =
  SUPABASE_URL :: "string option"
  SUPABASE_API_KEY :: "string option"

text \<open>The middleware either ends the request with a response or calls \<^verbatim>\<open>next()\<close>
  with \<^verbatim>\<open>req.user\<close> set.\<close>

datatype gate = Rejected response | Next json

record job_body =
  body_title :: "string option"
  body_description :: "string option"
  body_link :: "string option"

record login_body =
  body_email :: string
  body_password :: string


section \<open>JavaScript primitives\<close>

text \<open>\<^verbatim>\<open>s.startsWith(p)\<close>.\<close>

definition startsWith :: "string \<Rightarrow> string \<Rightarrow> bool" where
  "startsWith s p = (take (length p) s = p)"

text \<open>\<^verbatim>\<open>s.split(c)\<close> for a one-character separator: every occurrence separates, and the
  empty string splits into one empty piece.\<close>

fun split_on :: "char \<Rightarrow> string \<Rightarrow> string list" where
  "split_on c [] = [[]]"
| "split_on c (x # xs) =
     (if x = c then [] # split_on c xs
      else (case split_on c xs of
              [] \<Rightarrow> [[x]]
            | w # ws \<Rightarrow> (x # w) # ws))"

text \<open>\<^verbatim>\<open>xs[i]\<close>: \<^verbatim>\<open>undefined\<close> out of range.\<close>

definition at_index :: "'a list \<Rightarrow> nat \<Rightarrow> 'a option" where
  "at_index xs i = (if i < length xs then Some (xs ! i) else None)"

text \<open>A value inside a template literal: \<^verbatim>\<open>undefined\<close> prints as that word.\<close>

fun template :: "string option \<Rightarrow> string" where
  "template None = ''undefined''"
| "template (Some s) = s"

text \<open>\<^verbatim>\<open>!v\<close> for a value that is a string or \<^verbatim>\<open>undefined\<close>.\<close>

fun falsy :: "string option \<Rightarrow> bool" where
  "falsy None = True"
| "falsy (Some s) = (s = [])"

text \<open>Reading an identifier in a module: a \<^verbatim>\<open>ReferenceError\<close> unless the module (or
  Node itself) binds it.\<close>

definition resolve :: "string list \<Rightarrow> string \<Rightarrow> 'a \<Rightarrow> js_error + 'a" where
  "resolve scope x v = (if x \<in> set scope then Inr v else Inl (ReferenceError x))"


section \<open>Collaborators: axios and the mongoose models\<close>

text \<open>How \<^verbatim>\<open>axios\<close> in Node settles a reply under its defaults: redirects are followed,
  at most \<open>maxRedirects\<close> of them (one more rejects the promise); the reply it ends on
  resolves the promise when its status is 2xx (the default \<^verbatim>\<open>validateStatus\<close>) and
  rejects it otherwise; a transport failure rejects it.\<close>

fun settle :: "nat \<Rightarrow> http_reply \<Rightarrow> js_error + (nat \<times> json)" where
  "settle n NoReply = Inl AxiosError"
| "settle n (Reply st d) = (if 200 \<le> st \<and> st < 300 then Inr (st, d) else Inl AxiosError)"
| "settle n (Redirect r) = (case n of 0 \<Rightarrow> Inl AxiosError | Suc m \<Rightarrow> settle m r)"

text \<open>\<^verbatim>\<open>axios.get(url, { headers })\<close>. The handlers pass no \<^verbatim>\<open>maxRedirects\<close>, so the
  default of the installed \<^verbatim>\<open>axios\<close> applies; the repository does not say which version
  that is, so the bound is a parameter.\<close>

definition axios_get :: "nat \<Rightarrow> (axios_request \<Rightarrow> http_reply) \<Rightarrow> axios_request \<Rightarrow> js_error + (nat \<times> json)" where
  "axios_get maxRedirects net rq = settle maxRedirects (net rq)"

fun matches :: "job_filter \<Rightarrow> job \<Rightarrow> bool" where
  "matches NoFilter j = True"
| "matches (PostedAtGte d) j = (d \<le> postedAt j)"

text \<open>\<^verbatim>\<open>.sort({ postedAt: -1 })\<close>: most recent first. The store does not say in which
  order it returns postings of equal \<open>postedAt\<close>, and may order them differently from one
  query to the next. \<open>tie\<close> is the rank by which it happens to order them in the query at
  hand: the postings are put in the order of \<open>tie\<close> first, and the sort by \<open>postedAt\<close>
  keeps that order among equal times.\<close>

definition sort_postedAt_desc :: "(job \<Rightarrow> int) \<Rightarrow> job list \<Rightarrow> job list" where
  "sort_postedAt_desc tie js = sort_key (\<lambda>j. - postedAt j) (sort_key tie js)"

text \<open>\<^verbatim>\<open>Job.find(filter)\<close>; a read, so the store stays as it is.\<close>

definition Job_find :: "store \<Rightarrow> job_filter \<Rightarrow> js_error + job list" where
  "Job_find s flt =
     (if connected s then Inr (filter (matches flt) (jobs s)) else Inl StoreError)"

text \<open>\<^verbatim>\<open>Job.find(filter).sort({ postedAt: -1 })\<close>.\<close>

definition Job_find_sort :: "(job \<Rightarrow> int) \<Rightarrow> store \<Rightarrow> job_filter \<Rightarrow> js_error + job list" where
  "Job_find_sort tie s flt =
     (case Job_find s flt of
        Inl err \<Rightarrow> Inl err
      | Inr js \<Rightarrow> Inr (sort_postedAt_desc tie js))"

text \<open>\<^verbatim>\<open>new Job({ title, description, link })\<close>: the document gets its identifier and the
  schema default \<^verbatim>\<open>postedAt = Date.now()\<close> when it is constructed.\<close>

definition new_Job :: "timestamp \<Rightarrow> store \<Rightarrow> string \<Rightarrow> string \<Rightarrow> string \<Rightarrow> job" where
  "new_Job now s t d l =
     \<lparr>job_id = next_id s, title = t, description = d, link = l, postedAt = now\<rparr>"

text \<open>\<^verbatim>\<open>doc.save()\<close> on a new job document.\<close>

definition Job_save :: "store \<Rightarrow> job \<Rightarrow> js_error + store" where
  "Job_save s j =
     (if connected s then Inr (s\<lparr>jobs := jobs s @ [j], next_id := Suc (next_id s)\<rparr>)
      else Inl StoreError)"

text \<open>\<^verbatim>\<open>User.findOne({ email })\<close>: the first user document with that email, if any.\<close>

definition User_findOne :: "store \<Rightarrow> string \<Rightarrow> js_error + user option" where
  "User_findOne s e =
     (if connected s then Inr (find (\<lambda>u. email u = e) (users s)) else Inl StoreError)"


section \<open>The authorization middleware (src/index.js, verifyToken)\<close>

definition verifyToken :: "nat \<Rightarrow> env \<Rightarrow> (axios_request \<Rightarrow> http_reply) \<Rightarrow> string option \<Rightarrow> gate \<times> effect list" where
  "verifyToken maxRedirects ev net authHeader =
     (case authHeader of
        None \<Rightarrow> (Rejected \<lparr>status = 401, body = Message ''Token missing or invalid''\<rparr>, [])
      | Some h \<Rightarrow>
          if h = [] \<or> \<not> startsWith h ''Bearer '' then
            (Rejected \<lparr>status = 401, body = Message ''Token missing or invalid''\<rparr>, [])
          else
            let token = at_index (split_on CHR '' '' h) 1;
                rq = \<lparr>url = template (SUPABASE_URL ev) @ ''/auth/v1/user'',
                      hdr_Authorization = ''Bearer '' @ template token,
                      hdr_apikey = SUPABASE_API_KEY ev\<rparr>
            in (case axios_get maxRedirects net rq of
                  Inl err \<Rightarrow>
                    (Rejected \<lparr>status = 401, body = Message ''Invalid or expired token''\<rparr>,
                     [AxiosGet rq])
                | Inr (st, d) \<Rightarrow>
                    if st \<noteq> 200 then
                      (Rejected \<lparr>status = 401, body = Message ''Invalid token''\<rparr>, [AxiosGet rq])
                    else (Next d, [AxiosGet rq])))"


text \<open>The request \<open>verifyToken\<close> builds for a header \<open>h\<close> that passed the prefix check
  (lines 55 to 66), named so that statements can speak of what the identity service
  answers to it; \<open>verifyToken_sends\<close> below shows it is the request that is sent.\<close>

definition verify_request :: "env \<Rightarrow> string \<Rightarrow> axios_request" where
  "verify_request ev h =
     \<lparr>url = template (SUPABASE_URL ev) @ ''/auth/v1/user'',
      hdr_Authorization = ''Bearer '' @ template (at_index (split_on CHR '' '' h) 1),
      hdr_apikey = SUPABASE_API_KEY ev\<rparr>"


section \<open>Routes of src/index.js\<close>

text \<open>The identifiers the module \<^verbatim>\<open>src/index.js\<close> binds at top level, followed by the
  ones Node gives every CommonJS module and the globals the file reads. No line of the
  file binds \<^verbatim>\<open>jwt\<close>: there is no \<^verbatim>\<open>require("jsonwebtoken")\<close>.\<close>

definition module_scope_index :: "string list" where
  "module_scope_index =
     [''express'', ''mongoose'', ''axios'', ''cors'', ''bcrypt'', ''app'', ''mongooseUri'',
      ''jobSchema'', ''Job'', ''userSchema'', ''User'', ''verifyToken'',
      ''require'', ''module'', ''exports'', ''__filename'', ''__dirname'',
      ''process'', ''console'', ''Date'']"

text \<open>\<^verbatim>\<open>app.post("/login", ...)\<close>. \<open>cmp\<close> is \<^verbatim>\<open>bcrypt.compare\<close>; \<open>sign\<close> is what
  \<^verbatim>\<open>jwt.sign\<close> would compute from the user's identifier and email, were \<^verbatim>\<open>jwt\<close> bound.\<close>

definition login :: "(string \<Rightarrow> string \<Rightarrow> bool) \<Rightarrow> (nat \<Rightarrow> string \<Rightarrow> string) \<Rightarrow> store \<Rightarrow> login_body \<Rightarrow> outcome" where
  "login cmp sign s b =
     (case User_findOne s (body_email b) of
        Inl err \<Rightarrow>
          (\<lparr>status = 500, body = MessageError ''Error during login'' err\<rparr>, s,
           [UserFindOne (body_email b)])
      | Inr None \<Rightarrow>
          (\<lparr>status = 400, body = Message ''User not found''\<rparr>, s, [UserFindOne (body_email b)])
      | Inr (Some u) \<Rightarrow>
          if \<not> cmp (body_password b) (password u) then
            (\<lparr>status = 400, body = Message ''Invalid credentials''\<rparr>, s,
             [UserFindOne (body_email b)])
          else
            (case resolve module_scope_index ''jwt'' sign of
               Inl err \<Rightarrow>
                 (\<lparr>status = 500, body = MessageError ''Error during login'' err\<rparr>, s,
                  [UserFindOne (body_email b)])
             | Inr sg \<Rightarrow>
                 (\<lparr>status = 200,
                   body = MessageToken ''Login successful'' (sg (user_id u) (email u))\<rparr>, s,
                  [UserFindOne (body_email b)])))"

text \<open>The handler of \<^verbatim>\<open>app.post("/add-job", verifyToken, ...)\<close>, which runs once the
  middleware has called \<^verbatim>\<open>next()\<close>. The three body fields are strings or absent; past
  the check each is a non-empty string, which \<open>template\<close> hands to the constructor.\<close>

definition add_job_handler :: "timestamp \<Rightarrow> store \<Rightarrow> job_body \<Rightarrow> outcome" where
  "add_job_handler now s b =
     (if falsy (body_title b) \<or> falsy (body_description b) \<or> falsy (body_link b) then
        (\<lparr>status = 400, body = Message ''Missing required fields''\<rparr>, s, [])
      else
        let newJob = new_Job now s (template (body_title b)) (template (body_description b))
                       (template (body_link b))
        in (case Job_save s newJob of
              Inl err \<Rightarrow>
                (\<lparr>status = 500, body = MessageError ''Error adding job'' err\<rparr>, s,
                 [JobSave newJob])
            | Inr s' \<Rightarrow>
                (\<lparr>status = 201, body = MessageJob ''Job added successfully!'' newJob\<rparr>, s',
                 [JobSave newJob])))"

text \<open>The whole route: the middleware first, the handler only after \<^verbatim>\<open>next()\<close>.\<close>

definition add_job :: "nat \<Rightarrow> env \<Rightarrow> (axios_request \<Rightarrow> http_reply) \<Rightarrow> timestamp \<Rightarrow> store \<Rightarrow> string option \<Rightarrow> job_body \<Rightarrow> outcome" where
  "add_job maxRedirects ev net now s authHeader b =
     (case verifyToken maxRedirects ev net authHeader of
        (Rejected r, effs) \<Rightarrow> (r, s, effs)
      | (Next usr, effs) \<Rightarrow>
          (case add_job_handler now s b of (r, s', effs') \<Rightarrow> (r, s', effs @ effs')))"

text \<open>\<^verbatim>\<open>app.get("/all-jobs", ...)\<close> of \<^verbatim>\<open>src/index.js\<close>: \<^verbatim>\<open>Job.find()\<close>, no filter, no sort.\<close>

definition all_jobs :: "store \<Rightarrow> outcome" where
  "all_jobs s =
     (case Job_find s NoFilter of
        Inr js \<Rightarrow> (\<lparr>status = 200, body = JobList js\<rparr>, s, [JobFind NoFilter Unsorted])
      | Inl err \<Rightarrow>
          (\<lparr>status = 500, body = MessageError ''Error fetching jobs'' err\<rparr>, s,
           [JobFind NoFilter Unsorted]))"

text \<open>\<^verbatim>\<open>app.get("/latest-jobs", ...)\<close> of \<^verbatim>\<open>src/index.js\<close>.\<close>

definition latest_jobs :: "(job \<Rightarrow> int) \<Rightarrow> timestamp \<Rightarrow> store \<Rightarrow> outcome" where
  "latest_jobs tie now s =
     (let twentyFourHoursAgo = now - 24 * 60 * 60 * 1000
      in (case Job_find_sort tie s (PostedAtGte twentyFourHoursAgo) of
            Inr js \<Rightarrow>
              (\<lparr>status = 200, body = JobList js\<rparr>, s,
               [JobFind (PostedAtGte twentyFourHoursAgo) PostedAtDesc])
          | Inl err \<Rightarrow>
              (\<lparr>status = 500, body = MessageError ''Error fetching latest jobs'' err\<rparr>, s,
               [JobFind (PostedAtGte twentyFourHoursAgo) PostedAtDesc])))"


section \<open>Routes of the other modules\<close>

text \<open>\<^verbatim>\<open>src/api/index.js\<close> holds two modules one after the other; \<open>api_a\<close> is the first
  (lines 1 to 160) and \<open>api_b\<close> the second (lines 161 to 342). \<open>part_000\<close> is
  \<^verbatim>\<open>src/unnamed/part_000\<close>.\<close>

text \<open>\<^verbatim>\<open>app.post("/login", ...)\<close> of the second module: no token, the user document is
  returned.\<close>

definition login_api_b :: "(string \<Rightarrow> string \<Rightarrow> bool) \<Rightarrow> store \<Rightarrow> login_body \<Rightarrow> outcome" where
  "login_api_b cmp s b =
     (case User_findOne s (body_email b) of
        Inl err \<Rightarrow>
          (\<lparr>status = 500, body = MessageError ''Error during login'' err\<rparr>, s,
           [UserFindOne (body_email b)])
      | Inr None \<Rightarrow>
          (\<lparr>status = 400, body = Message ''User not found''\<rparr>, s, [UserFindOne (body_email b)])
      | Inr (Some u) \<Rightarrow>
          if \<not> cmp (body_password b) (password u) then
            (\<lparr>status = 400, body = Message ''Invalid credentials''\<rparr>, s,
             [UserFindOne (body_email b)])
          else
            (\<lparr>status = 200, body = MessageUser ''Login successful'' u\<rparr>, s,
             [UserFindOne (body_email b)]))"

text \<open>\<^verbatim>\<open>app.get("/all-jobs", ...)\<close> of the second module: "exclude jobs older than 30
  days", most recent first.\<close>

definition all_jobs_api_b :: "(job \<Rightarrow> int) \<Rightarrow> timestamp \<Rightarrow> store \<Rightarrow> outcome" where
  "all_jobs_api_b tie now s =
     (let thirtyDaysAgo = now - 30 * 24 * 60 * 60 * 1000
      in (case Job_find_sort tie s (PostedAtGte thirtyDaysAgo) of
            Inr js \<Rightarrow>
              (\<lparr>status = 200, body = JobList js\<rparr>, s,
               [JobFind (PostedAtGte thirtyDaysAgo) PostedAtDesc])
          | Inl err \<Rightarrow>
              (\<lparr>status = 500, body = MessageError ''Error fetching jobs'' err\<rparr>, s,
               [JobFind (PostedAtGte thirtyDaysAgo) PostedAtDesc])))"

text \<open>\<^verbatim>\<open>app.get("/latest-jobs", ...)\<close> of the first module of \<^verbatim>\<open>src/api/index.js\<close>.\<close>

definition latest_jobs_api_a :: "(job \<Rightarrow> int) \<Rightarrow> timestamp \<Rightarrow> store \<Rightarrow> outcome" where
  "latest_jobs_api_a tie now s =
     (let twentyFourHoursAgo = now - 24 * 60 * 60 * 1000
      in (case Job_find_sort tie s (PostedAtGte twentyFourHoursAgo) of
            Inr js \<Rightarrow>
              (\<lparr>status = 200, body = JobList js\<rparr>, s,
               [JobFind (PostedAtGte twentyFourHoursAgo) PostedAtDesc])
          | Inl err \<Rightarrow>
              (\<lparr>status = 500, body = MessageError ''Error fetching latest jobs'' err\<rparr>, s,
               [JobFind (PostedAtGte twentyFourHoursAgo) PostedAtDesc])))"

text \<open>\<^verbatim>\<open>app.get("/latest-jobs", ...)\<close> of the second module of \<^verbatim>\<open>src/api/index.js\<close>.\<close>

definition latest_jobs_api_b :: "(job \<Rightarrow> int) \<Rightarrow> timestamp \<Rightarrow> store \<Rightarrow> outcome" where
  "latest_jobs_api_b tie now s =
     (let twentyFourHoursAgo = now - 24 * 60 * 60 * 1000
      in (case Job_find_sort tie s (PostedAtGte twentyFourHoursAgo) of
            Inr js \<Rightarrow>
              (\<lparr>status = 200, body = JobList js\<rparr>, s,
               [JobFind (PostedAtGte twentyFourHoursAgo) PostedAtDesc])
          | Inl err \<Rightarrow>
              (\<lparr>status = 500, body = MessageError ''Error fetching latest jobs'' err\<rparr>, s,
               [JobFind (PostedAtGte twentyFourHoursAgo) PostedAtDesc])))"

text \<open>\<^verbatim>\<open>app.get("/latest-jobs", ...)\<close> of \<^verbatim>\<open>src/unnamed/part_000\<close>.\<close>

definition latest_jobs_part_000 :: "(job \<Rightarrow> int) \<Rightarrow> timestamp \<Rightarrow> store \<Rightarrow> outcome" where
  "latest_jobs_part_000 tie now s =
     (let twentyFourHoursAgo = now - 24 * 60 * 60 * 1000
      in (case Job_find_sort tie s (PostedAtGte twentyFourHoursAgo) of
            Inr js \<Rightarrow>
              (\<lparr>status = 200, body = JobList js\<rparr>, s,
               [JobFind (PostedAtGte twentyFourHoursAgo) PostedAtDesc])
          | Inl err \<Rightarrow>
              (\<lparr>status = 500, body = MessageError ''Error fetching latest jobs'' err\<rparr>, s,
               [JobFind (PostedAtGte twentyFourHoursAgo) PostedAtDesc])))"


section \<open>Concrete inputs for the examples\<close>

definition env0 :: env where
  "env0 = \<lparr>SUPABASE_URL = Some ''https://id.example'', SUPABASE_API_KEY = Some ''key''\<rparr>"

text \<open>An identity service that accepts every token, one that answers 401 to every token,
  and one that cannot be reached.\<close>

definition accepting_service :: "axios_request \<Rightarrow> http_reply" where
  "accepting_service rq = Reply 200 ''{id:1}''"

definition expired_service :: "axios_request \<Rightarrow> http_reply" where
  "expired_service rq = Reply 401 ''{msg:expired}''"

definition unreachable_service :: "axios_request \<Rightarrow> http_reply" where
  "unreachable_service rq = NoReply"

text \<open>An identity service that sends the caller elsewhere, where the token is accepted.\<close>

definition redirecting_service :: "axios_request \<Rightarrow> http_reply" where
  "redirecting_service rq = Redirect (Reply 200 ''{id:1}'')"

text \<open>Two ways the store may order postings of equal time: by rising and by falling
  identifier.\<close>

definition by_id :: "job \<Rightarrow> int" where
  "by_id j = int (job_id j)"


text \<open>A stand-in for \<^verbatim>\<open>bcrypt.compare\<close> and one for \<^verbatim>\<open>jwt.sign\<close>, for the examples only.\<close>

definition plain_compare :: "string \<Rightarrow> string \<Rightarrow> bool" where
  "plain_compare p h = (h = ''hash:'' @ p)"

definition plain_sign :: "nat \<Rightarrow> string \<Rightarrow> string" where
  "plain_sign i e = ''token:'' @ e"

definition alice :: user where
  "alice = \<lparr>user_id = 1, name = ''A'', email = ''a@x.com'', department = ''Eng'',
            password = ''hash:pw'', is_verified = False\<rparr>"

definition job_old :: job where
  "job_old = \<lparr>job_id = 2, title = ''old'', description = ''d'', link = ''l'', postedAt = 0\<rparr>"

definition job_edge :: job where
  "job_edge = \<lparr>job_id = 3, title = ''edge'', description = ''d'', link = ''l'',
               postedAt = 2600000000\<rparr>"

definition job_new :: job where
  "job_new = \<lparr>job_id = 4, title = ''new'', description = ''d'', link = ''l'',
              postedAt = 2686000000\<rparr>"



definition store0 :: store where
  "store0 = \<lparr>jobs = [job_old, job_edge, job_new], users = [alice], connected = True,
             next_id = 5\<rparr>"

definition body_no_description :: job_body where
  "body_no_description =
     \<lparr>body_title = Some ''t'', body_description = Some [], body_link = Some ''l''\<rparr>"


definition body_complete :: job_body where
  "body_complete = \<lparr>body_title = Some ''t'', body_description = Some ''d'', body_link = Some ''l''\<rparr>"


section \<open>Splitting the header\<close>

lemma split_on_nonempty: "split_on c s \<noteq> []"
  by (induction s) (auto split: list.splits)

lemma split_on_hd: "hd (split_on c s) = takeWhile (\<lambda>x. x \<noteq> c) s"
  using split_on_nonempty by (induction s) (auto split: list.splits)

lemma split_on_Bearer:
  "split_on CHR '' '' (''Bearer '' @ r) = ''Bearer'' # split_on CHR '' '' r"
  by (simp split: list.splits add: split_on_nonempty)

lemma startsWith_drop: "startsWith h ''Bearer '' \<Longrightarrow> h = ''Bearer '' @ drop 7 h"
proof -
  assume "startsWith h ''Bearer ''"
  then have "take (length ''Bearer '') h = ''Bearer ''" unfolding startsWith_def .
  moreover have "length ''Bearer '' = 7" by simp
  ultimately have "take 7 h = ''Bearer ''" by metis
  then show ?thesis by (metis append_take_drop_id)
qed

lemma startsWith_nonempty: "startsWith h ''Bearer '' \<Longrightarrow> h \<noteq> []"
  by (auto simp: startsWith_def)

text \<open>\<^verbatim>\<open>authHeader.split(" ")[1]\<close> is the text between the first and the second space.\<close>

lemma token_of_header:
  "at_index (split_on CHR '' '' (''Bearer '' @ r)) 1 = Some (takeWhile (\<lambda>x. x \<noteq> CHR '' '') r)"
proof -
  obtain w ws where ws: "split_on CHR '' '' r = w # ws"
    using split_on_nonempty [of "CHR '' ''" r] by (cases "split_on CHR '' '' r") auto
  then have "w = takeWhile (\<lambda>x. x \<noteq> CHR '' '') r"
    using split_on_hd [of "CHR '' ''" r] by simp
  then show ?thesis
    unfolding split_on_Bearer at_index_def ws by simp
qed

lemma token_of_startsWith:
  "startsWith h ''Bearer '' \<Longrightarrow>
   at_index (split_on CHR '' '' h) 1 = Some (takeWhile (\<lambda>x. x \<noteq> CHR '' '') (drop 7 h))"
  by (metis token_of_header startsWith_drop)


section \<open>The authorization middleware\<close>

text \<open>What the middleware does with a header that has the prefix: one request, and the
  outcome follows what \<^verbatim>\<open>axios\<close> settles on.\<close>

lemma verifyToken_well_formed:
  assumes "startsWith h ''Bearer ''"
  shows "verifyToken mr ev net (Some h) =
     (let rq = \<lparr>url = template (SUPABASE_URL ev) @ ''/auth/v1/user'',
                hdr_Authorization = ''Bearer '' @ takeWhile (\<lambda>x. x \<noteq> CHR '' '') (drop 7 h),
                hdr_apikey = SUPABASE_API_KEY ev\<rparr>
      in (case axios_get mr net rq of
            Inl err \<Rightarrow>
              (Rejected \<lparr>status = 401, body = Message ''Invalid or expired token''\<rparr>,
               [AxiosGet rq])
          | Inr (st, d) \<Rightarrow>
              if st \<noteq> 200 then
                (Rejected \<lparr>status = 401, body = Message ''Invalid token''\<rparr>, [AxiosGet rq])
              else (Next d, [AxiosGet rq])))"
proof -
  have tok: "at_index (split_on CHR '' '' h) 1 = Some (takeWhile (\<lambda>x. x \<noteq> CHR '' '') (drop 7 h))"
    using assms by (rule token_of_startsWith)
  have ne: "h \<noteq> []" using assms by (rule startsWith_nonempty)
  show ?thesis
    apply (simp only: verifyToken_def option.case Let_def tok)
    using assms ne apply (simp split: sum.splits)
    done
qed

lemma verifyToken_sends:
  "startsWith h ''Bearer '' \<Longrightarrow>
   snd (verifyToken mr ev net (Some h)) = [AxiosGet (verify_request ev h)]"
  using startsWith_nonempty [of h]
  by (auto simp: verifyToken_def verify_request_def Let_def split: sum.splits)

text \<open>A verification call that does not resolve with status 200 ends the request with 401.\<close>

lemma verifyToken_not_accepted:
  assumes "\<forall>h d. authHeader = Some h \<longrightarrow> axios_get mr net (verify_request ev h) \<noteq> Inr (200, d)"
  shows "\<exists>m effs. verifyToken mr ev net authHeader =
                    (Rejected \<lparr>status = 401, body = Message m\<rparr>, effs)
           \<and> (\<forall>e \<in> set effs. \<exists>rq. e = AxiosGet rq)"
proof (cases authHeader)
  case None
  then show ?thesis by (simp add: verifyToken_def)
next
  case (Some h)
  have "\<And>d. axios_get mr net (verify_request ev h) \<noteq> Inr (200, d)" using assms Some by simp
  then show ?thesis
    unfolding Some verifyToken_def verify_request_def
    by (auto simp: Let_def split: sum.splits)
qed

text \<open>
  C1. A request to the protected route whose Authorization header is absent, or does not
  start with \<^verbatim>\<open>"Bearer "\<close>, is answered 401 "Token missing or invalid" by \<open>verifyToken\<close>,
  and nothing is sent to the identity service: the list of effects is empty, for the
  middleware and for the whole route.
\<close>

theorem verifyToken_rejects_malformed:
  "authHeader = None \<or> (\<exists>h. authHeader = Some h \<and> \<not> startsWith h ''Bearer '') \<Longrightarrow>
   verifyToken mr ev net authHeader =
     (Rejected \<lparr>status = 401, body = Message ''Token missing or invalid''\<rparr>, [])
   \<and> add_job mr ev net now s authHeader b =
     (\<lparr>status = 401, body = Message ''Token missing or invalid''\<rparr>, s, [])"
  by (auto simp: verifyToken_def add_job_def)

theorem verifyToken_rejects_malformed_witness:
  "verifyToken 5 env0 accepting_service None =
     (Rejected \<lparr>status = 401, body = Message ''Token missing or invalid''\<rparr>, [])
   \<and> verifyToken 5 env0 accepting_service (Some ''Basic abc'') =
     (Rejected \<lparr>status = 401, body = Message ''Token missing or invalid''\<rparr>, [])
   \<and> \<not> startsWith ''Basic abc'' ''Bearer ''"
proof -
  have a: "\<not> startsWith ''Basic abc'' ''Bearer ''" by (simp add: startsWith_def)
  show ?thesis
    using verifyToken_rejects_malformed [of None 5 env0 accepting_service]
      verifyToken_rejects_malformed [of "Some ''Basic abc''" 5 env0 accepting_service] a
    by simp
qed

text \<open>
  C2. When the verification call does not resolve with status 200 (the identity service
  answers with another status, or the call throws: no reply, a status outside 2xx, or
  more redirects than \<^verbatim>\<open>axios\<close> follows), POST /add-job answers 401 and the store is
  the one it started with; no job document is saved. A redirect that \<^verbatim>\<open>axios\<close> follows
  to a 200 reply counts as accepted, as in the code.
\<close>

theorem add_job_unverified:
  assumes "\<forall>h d. authHeader = Some h \<longrightarrow> axios_get mr net (verify_request ev h) \<noteq> Inr (200, d)"
  shows "status (fst (add_job mr ev net now s authHeader b)) = 401
         \<and> fst (snd (add_job mr ev net now s authHeader b)) = s
         \<and> (\<forall>e \<in> set (snd (snd (add_job mr ev net now s authHeader b))). \<forall>j. e \<noteq> JobSave j)"
proof -
  obtain m effs
    where v: "verifyToken mr ev net authHeader =
                (Rejected \<lparr>status = 401, body = Message m\<rparr>, effs)"
      and e: "\<forall>e \<in> set effs. \<exists>rq. e = AxiosGet rq"
    using verifyToken_not_accepted [OF assms] by blast
  have "add_job mr ev net now s authHeader b = (\<lparr>status = 401, body = Message m\<rparr>, s, effs)"
    by (simp add: add_job_def v)
  then show ?thesis using e by auto
qed

theorem add_job_unverified_witness:
  "status (fst (add_job 5 env0 expired_service 2686400000 store0 (Some ''Bearer abc'') body_complete)) = 401
   \<and> fst (snd (add_job 5 env0 expired_service 2686400000 store0 (Some ''Bearer abc'') body_complete)) = store0
   \<and> status (fst (add_job 5 env0 unreachable_service 2686400000 store0 (Some ''Bearer abc'') body_complete)) = 401
   \<and> fst (snd (add_job 5 env0 unreachable_service 2686400000 store0 (Some ''Bearer abc'') body_complete)) = store0
   \<and> status (fst (add_job 0 env0 redirecting_service 2686400000 store0 (Some ''Bearer abc'') body_complete)) = 401
   \<and> fst (snd (add_job 0 env0 redirecting_service 2686400000 store0 (Some ''Bearer abc'') body_complete)) = store0"
  using add_job_unverified [of "Some ''Bearer abc''" 5 expired_service env0 2686400000 store0 body_complete]
    add_job_unverified [of "Some ''Bearer abc''" 5 unreachable_service env0 2686400000 store0 body_complete]
    add_job_unverified [of "Some ''Bearer abc''" 0 redirecting_service env0 2686400000 store0 body_complete]
  by (simp add: axios_get_def expired_service_def unreachable_service_def redirecting_service_def)

text \<open>The other side of the redirect: followed to a 200 reply, the token is accepted and
  the job is saved.\<close>

lemma add_job_after_redirect:
  "add_job 5 env0 redirecting_service 2686400000 store0 (Some ''Bearer abc'') body_complete =
     (\<lparr>status = 201,
       body = MessageJob ''Job added successfully!''
                \<lparr>job_id = 5, title = ''t'', description = ''d'', link = ''l'',
                 postedAt = 2686400000\<rparr>\<rparr>,
      store0\<lparr>jobs := jobs store0 @
                 [\<lparr>job_id = 5, title = ''t'', description = ''d'', link = ''l'',
                   postedAt = 2686400000\<rparr>],
             next_id := 6\<rparr>,
      [AxiosGet \<lparr>url = ''https://id.example/auth/v1/user'', hdr_Authorization = ''Bearer abc'',
                 hdr_apikey = Some ''key''\<rparr>,
       JobSave \<lparr>job_id = 5, title = ''t'', description = ''d'', link = ''l'',
                postedAt = 2686400000\<rparr>])"
  by (simp add: add_job_def verifyToken_def startsWith_def at_index_def axios_get_def env0_def
      redirecting_service_def add_job_handler_def body_complete_def new_Job_def Job_save_def
      store0_def Let_def)

text \<open>
  The claim C7 as stated, that the credential presented is the whole of what follows
  \<^verbatim>\<open>"Bearer "\<close>, fails for the header \<^verbatim>\<open>"Bearer a b"\<close>: what follows the prefix is
  \<^verbatim>\<open>"a b"\<close>, and the request carries \<^verbatim>\<open>"Bearer a"\<close>.
\<close>

theorem verifyToken_cuts_at_space:
  "startsWith ''Bearer a b'' ''Bearer ''
   \<and> drop 7 ''Bearer a b'' = ''a b''
   \<and> snd (verifyToken 5 env0 accepting_service (Some ''Bearer a b'')) =
       [AxiosGet \<lparr>url = ''https://id.example/auth/v1/user'', hdr_Authorization = ''Bearer a'',
                  hdr_apikey = Some ''key''\<rparr>]"
  by (simp add: verifyToken_def startsWith_def at_index_def axios_get_def env0_def
      accepting_service_def)

text \<open>
  C7, amended. For a header that starts with \<^verbatim>\<open>"Bearer "\<close>, exactly one request goes to
  the identity service, and the credential it presents is what follows the prefix up to
  its first space; when what follows the prefix has no space, that is all of it.
\<close>

theorem verifyToken_presents_first_word:
  "startsWith h ''Bearer '' \<Longrightarrow>
   snd (verifyToken mr ev net (Some h)) =
     [AxiosGet \<lparr>url = template (SUPABASE_URL ev) @ ''/auth/v1/user'',
                hdr_Authorization = ''Bearer '' @ takeWhile (\<lambda>x. x \<noteq> CHR '' '') (drop 7 h),
                hdr_apikey = SUPABASE_API_KEY ev\<rparr>]
   \<and> (CHR '' '' \<notin> set (drop 7 h) \<longrightarrow>
        snd (verifyToken mr ev net (Some h)) =
          [AxiosGet \<lparr>url = template (SUPABASE_URL ev) @ ''/auth/v1/user'',
                     hdr_Authorization = ''Bearer '' @ drop 7 h,
                     hdr_apikey = SUPABASE_API_KEY ev\<rparr>])"
proof -
  assume a: "startsWith h ''Bearer ''"
  have sent: "snd (verifyToken mr ev net (Some h)) =
     [AxiosGet \<lparr>url = template (SUPABASE_URL ev) @ ''/auth/v1/user'',
                hdr_Authorization = ''Bearer '' @ takeWhile (\<lambda>x. x \<noteq> CHR '' '') (drop 7 h),
                hdr_apikey = SUPABASE_API_KEY ev\<rparr>]"
    unfolding verifyToken_well_formed [OF a] Let_def
    by (simp split: sum.splits)
  have "takeWhile (\<lambda>x. x \<noteq> CHR '' '') (drop 7 h) = drop 7 h" if "CHR '' '' \<notin> set (drop 7 h)"
    using that by (intro takeWhile_eq_all_conv [THEN iffD2]) auto
  with sent show ?thesis by simp
qed

theorem verifyToken_presents_first_word_witness:
  "startsWith ''Bearer abc'' ''Bearer ''
   \<and> snd (verifyToken 5 env0 accepting_service (Some ''Bearer abc'')) =
       [AxiosGet \<lparr>url = ''https://id.example/auth/v1/user'', hdr_Authorization = ''Bearer abc'',
                  hdr_apikey = Some ''key''\<rparr>]"
proof -
  have a: "startsWith ''Bearer abc'' ''Bearer ''" by (simp add: startsWith_def)
  from verifyToken_presents_first_word [OF a, of 5 env0 accepting_service] a
  show ?thesis by (simp add: env0_def)
qed


section \<open>Creating a job\<close>

text \<open>
  C8. When title, description or link is empty or missing, the operation answers 400
  "Missing required fields" before any store interaction, and no record is created: the
  handler returns 400 with the store as it was and no effect at all; on the route, every
  request that comes with a credential the middleware accepts is answered 400; and
  whatever the credential, the store is unchanged and the only effects are those of the
  middleware (no store operation).
\<close>

theorem add_job_missing_field:
  "falsy (body_title b) \<or> falsy (body_description b) \<or> falsy (body_link b) \<Longrightarrow>
   add_job_handler now s b = (\<lparr>status = 400, body = Message ''Missing required fields''\<rparr>, s, [])
   \<and> fst (snd (add_job mr ev net now s authHeader b)) = s
   \<and> snd (snd (add_job mr ev net now s authHeader b)) = snd (verifyToken mr ev net authHeader)
   \<and> (\<forall>usr. fst (verifyToken mr ev net authHeader) = Next usr \<longrightarrow>
        fst (add_job mr ev net now s authHeader b) =
          \<lparr>status = 400, body = Message ''Missing required fields''\<rparr>)"
  by (auto simp: add_job_def add_job_handler_def split: prod.splits gate.splits)

theorem add_job_missing_field_witness:
  "falsy (body_description body_no_description)
   \<and> fst (verifyToken 5 env0 accepting_service (Some ''Bearer abc'')) = Next ''{id:1}''
   \<and> fst (add_job 5 env0 accepting_service 2686400000 store0 (Some ''Bearer abc'') body_no_description) =
       \<lparr>status = 400, body = Message ''Missing required fields''\<rparr>
   \<and> fst (snd (add_job 5 env0 accepting_service 2686400000 store0 (Some ''Bearer abc'')
        body_no_description)) = store0"
proof -
  have f: "falsy (body_title body_no_description) \<or> falsy (body_description body_no_description)
           \<or> falsy (body_link body_no_description)"
    by (simp add: body_no_description_def)
  have g: "fst (verifyToken 5 env0 accepting_service (Some ''Bearer abc'')) = Next ''{id:1}''"
    by (simp add: verifyToken_def startsWith_def at_index_def axios_get_def env0_def
        accepting_service_def)
  from add_job_missing_field [OF f, of 2686400000 store0 5 env0 accepting_service "Some ''Bearer abc''"] g
  show ?thesis by (simp add: body_no_description_def)
qed

text \<open>With all three fields present and the store connected, the handler saves one
  document stamped with the time of the request.\<close>

lemma add_job_handler_saves:
  assumes "\<not> falsy (body_title b)" "\<not> falsy (body_description b)" "\<not> falsy (body_link b)"
    and "connected s"
  shows "\<exists>j. add_job_handler now s b =
           (\<lparr>status = 201, body = MessageJob ''Job added successfully!'' j\<rparr>,
            s\<lparr>jobs := jobs s @ [j], next_id := Suc (next_id s)\<rparr>, [JobSave j])
         \<and> postedAt j = now"
  using assms by (simp add: add_job_handler_def Job_save_def new_Job_def Let_def)


section \<open>Logging in\<close>

lemma login_wrong_password:
  assumes "User_findOne s (body_email b) = Inr (Some u)" and "\<not> cmp (body_password b) (password u)"
  shows "fst (login cmp sign s b) = \<lparr>status = 400, body = Message ''Invalid credentials''\<rparr>"
    and "fst (login_api_b cmp s b) = \<lparr>status = 400, body = Message ''Invalid credentials''\<rparr>"
  using assms by (simp_all add: login_def login_api_b_def)

lemma login_correct_password:
  assumes "User_findOne s (body_email b) = Inr (Some u)" and "cmp (body_password b) (password u)"
  shows "fst (login cmp sign s b) =
           \<lparr>status = 500, body = MessageError ''Error during login'' (ReferenceError ''jwt'')\<rparr>"
    and "fst (login_api_b cmp s b) = \<lparr>status = 200, body = MessageUser ''Login successful'' u\<rparr>"
  using assms by (simp_all add: login_def login_api_b_def resolve_def module_scope_index_def)

text \<open>
  C4. A stored account that logs in with a wrong password is answered 400 "Invalid
  credentials", and with the right password 200 with a success payload. In
  \<^verbatim>\<open>src/index.js\<close> the second half does not hold: the module never binds \<^verbatim>\<open>jwt\<close>, so
  \<^verbatim>\<open>jwt.sign\<close> raises a ReferenceError inside the \<^verbatim>\<open>try\<close>, and the stored account
  \<open>alice\<close> with her right password is answered 500 "Error during login".
\<close>

theorem login_missing_jwt:
  "login plain_compare plain_sign store0 \<lparr>body_email = ''a@x.com'', body_password = ''pw''\<rparr> =
     (\<lparr>status = 500, body = MessageError ''Error during login'' (ReferenceError ''jwt'')\<rparr>,
      store0, [UserFindOne ''a@x.com''])
   \<and> alice \<in> set (users store0) \<and> email alice = ''a@x.com''
   \<and> plain_compare ''pw'' (password alice)"
  by (simp add: login_def User_findOne_def store0_def alice_def plain_compare_def resolve_def
      module_scope_index_def)



section \<open>Listing jobs\<close>

lemma Job_find_sort_connected:
  "connected s \<Longrightarrow>
   Job_find_sort tie s flt = Inr (sort_postedAt_desc tie (filter (matches flt) (jobs s)))"
  by (simp add: Job_find_sort_def Job_find_def)

lemma set_sort_postedAt_desc: "set (sort_postedAt_desc tie js) = set js"
  by (simp add: sort_postedAt_desc_def)

text \<open>Whatever the order among equal times, the sorted list never rises.\<close>

lemma sort_postedAt_desc_descending:
  assumes "i < j" and "j < length (sort_postedAt_desc tie js)"
  shows "postedAt (sort_postedAt_desc tie js ! j) \<le> postedAt (sort_postedAt_desc tie js ! i)"
proof -
  let ?rs = "sort_postedAt_desc tie js"
  have "sorted (map (\<lambda>j. - postedAt j) ?rs)"
    unfolding sort_postedAt_desc_def by (rule sorted_sort_key)
  moreover have "i < length ?rs" "j < length ?rs" using assms by simp_all
  ultimately have "map (\<lambda>j. - postedAt j) ?rs ! i \<le> map (\<lambda>j. - postedAt j) ?rs ! j"
    using assms(1) by (simp add: sorted_iff_nth_mono del: sorted_map)
  then show ?thesis using \<open>i < length ?rs\<close> \<open>j < length ?rs\<close> by simp
qed






text \<open>
  The claim C3 as stated, that GET /all-jobs returns every stored posting with no time
  filter, fails for the second module of \<^verbatim>\<open>src/api/index.js\<close>: a posting more than 30
  days old is stored and is not returned.
\<close>

theorem all_jobs_api_b_drops_old:
  "fst (all_jobs_api_b by_id 2686400000 store0) =
     \<lparr>status = 200, body = JobList [job_new, job_edge]\<rparr>
   \<and> connected store0 \<and> jobs store0 = [job_old, job_edge, job_new]
   \<and> job_old \<noteq> job_new \<and> job_old \<noteq> job_edge"
  by (simp add: all_jobs_api_b_def Job_find_sort_def Job_find_def sort_postedAt_desc_def
      by_id_def store0_def job_old_def job_edge_def job_new_def)

text \<open>
  C3, amended. With the store connected, GET /all-jobs of \<^verbatim>\<open>src/index.js\<close> returns the
  stored postings, all of them, in store order, with no time filter; GET /all-jobs of the
  second module of \<^verbatim>\<open>src/api/index.js\<close> returns exactly the stored postings that are at
  most 30 days old.
\<close>

theorem all_jobs_by_variant:
  "connected s \<Longrightarrow>
   all_jobs s = (\<lparr>status = 200, body = JobList (jobs s)\<rparr>, s, [JobFind NoFilter Unsorted])
   \<and> (\<exists>js. all_jobs_api_b tie now s =
             (\<lparr>status = 200, body = JobList js\<rparr>, s,
              [JobFind (PostedAtGte (now - 2592000000)) PostedAtDesc])
         \<and> (\<forall>p. p \<in> set js \<longleftrightarrow> p \<in> set (jobs s) \<and> now - 2592000000 \<le> postedAt p))"
  by (auto simp: all_jobs_def all_jobs_api_b_def Job_find_def Job_find_sort_connected
      set_sort_postedAt_desc Let_def)

theorem all_jobs_by_variant_witness:
  "connected store0
   \<and> all_jobs store0 =
       (\<lparr>status = 200, body = JobList [job_old, job_edge, job_new]\<rparr>, store0,
        [JobFind NoFilter Unsorted])"
proof -
  have c: "connected store0" by (simp add: store0_def)
  from all_jobs_by_variant [OF c] c show ?thesis by (simp add: store0_def)
qed

text \<open>
  C5. With the store connected, GET /latest-jobs at time \<open>now\<close> answers 200 with a list
  that holds a posting if and only if the posting is stored and its \<open>postedAt\<close> is at
  least \<open>now\<close> minus 24 hours; a stored posting whose \<open>postedAt\<close> is exactly \<open>now\<close>
  minus 24 hours is in the list.
\<close>

theorem latest_jobs_window:
  "connected s \<Longrightarrow>
   \<exists>js. latest_jobs tie now s =
          (\<lparr>status = 200, body = JobList js\<rparr>, s,
           [JobFind (PostedAtGte (now - 86400000)) PostedAtDesc])
      \<and> (\<forall>p. p \<in> set js \<longleftrightarrow> p \<in> set (jobs s) \<and> now - 86400000 \<le> postedAt p)
      \<and> (\<forall>p \<in> set (jobs s). postedAt p = now - 86400000 \<longrightarrow> p \<in> set js)"
  by (auto simp: latest_jobs_def Job_find_sort_connected set_sort_postedAt_desc Let_def)

theorem latest_jobs_window_witness:
  "connected store0 \<and>
   latest_jobs by_id 2686400000 store0 =
     (\<lparr>status = 200, body = JobList [job_new, job_edge]\<rparr>, store0,
      [JobFind (PostedAtGte 2600000000) PostedAtDesc])
   \<and> postedAt job_edge = 2686400000 - 86400000
   \<and> job_old \<notin> set [job_new, job_edge]"
proof -
  have c: "connected store0" by (simp add: store0_def)
  have e: "latest_jobs by_id 2686400000 store0 =
     (\<lparr>status = 200, body = JobList [job_new, job_edge]\<rparr>, store0,
      [JobFind (PostedAtGte 2600000000) PostedAtDesc])"
    by (simp add: latest_jobs_def Job_find_sort_def Job_find_def sort_postedAt_desc_def
        by_id_def store0_def job_old_def job_edge_def job_new_def)
  from latest_jobs_window [OF c, of by_id 2686400000] e c show ?thesis
    by (simp add: job_old_def job_edge_def job_new_def)
qed

text \<open>
  C6. In the list GET /latest-jobs returns, a posting that comes before another was
  posted no earlier than it: for positions \<open>i < j\<close>, \<open>postedAt\<close> at \<open>i\<close> is at least
  \<open>postedAt\<close> at \<open>j\<close>.
\<close>

theorem latest_jobs_descending:
  "fst (latest_jobs tie now s) = \<lparr>status = 200, body = JobList js\<rparr> \<Longrightarrow> i < j \<Longrightarrow>
   j < length js \<Longrightarrow> postedAt (js ! j) \<le> postedAt (js ! i)"
  using sort_postedAt_desc_descending
  by (auto simp: latest_jobs_def Job_find_sort_def Job_find_def Let_def split: if_splits)

theorem latest_jobs_descending_witness:
  "fst (latest_jobs by_id 2686400000 store0) =
     \<lparr>status = 200, body = JobList [job_new, job_edge]\<rparr>
   \<and> (0::nat) < 1 \<and> 1 < length [job_new, job_edge]
   \<and> postedAt ([job_new, job_edge] ! 1) \<le> postedAt ([job_new, job_edge] ! 0)"
proof -
  have e: "fst (latest_jobs by_id 2686400000 store0) =
             \<lparr>status = 200, body = JobList [job_new, job_edge]\<rparr>"
    by (simp add: latest_jobs_def Job_find_sort_def Job_find_def sort_postedAt_desc_def
        by_id_def store0_def job_old_def job_edge_def job_new_def)
  have a: "(0::nat) < 1" by simp
  have b: "1 < length [job_new, job_edge]" by simp
  from latest_jobs_descending [OF e a b] e show ?thesis by simp
qed





text \<open>
  C10. The four GET /latest-jobs handlers (\<^verbatim>\<open>src/index.js\<close>, both modules of
  \<^verbatim>\<open>src/api/index.js\<close>, \<^verbatim>\<open>src/unnamed/part_000\<close>) are the same function of the query
  time and the store: same response, same store afterwards, same store operation, whether
  the store is connected or not.
\<close>

theorem latest_jobs_variants_equal:
  "latest_jobs tie now s = latest_jobs_api_a tie now s
   \<and> latest_jobs_api_a tie now s = latest_jobs_api_b tie now s
   \<and> latest_jobs_api_b tie now s = latest_jobs_part_000 tie now s"
  by (simp add: latest_jobs_def latest_jobs_api_a_def latest_jobs_api_b_def
      latest_jobs_part_000_def)

text \<open>The shared error mapping: a store that cannot be queried gives 500.\<close>

lemma latest_jobs_store_error:
  "\<not> connected s \<Longrightarrow>
   fst (latest_jobs tie now s) =
     \<lparr>status = 500, body = MessageError ''Error fetching latest jobs'' StoreError\<rparr>"
  by (simp add: latest_jobs_def Job_find_sort_def Job_find_def Let_def)

end
